theory Spec2Isabelle
  imports Main "HOL-Library.Char_ord" "HOL-Library.AList" "HOL-Library.Sublist"
begin

section \<open>Python values\<close>

text \<open>
  The notebook \<^verbatim>\<open>callFunction.ipynb\<close> handles Python values of the kinds that JSON can
  carry: \<^verbatim>\<open>None\<close>, booleans, integers, floats, strings, lists and dictionaries with
  string keys. A dictionary is an association list with distinct keys in insertion
  order. A float is kept as sign, decimal mantissa and decimal exponent (the mantissa
  is not a multiple of ten), which is the float that a decimal literal denotes as long
  as the literal has at most 15 significant digits and lies in the range of a double;
  every float of this development is of that kind. Strings are byte strings (UTF-8).
\<close>

datatype pyfloat = PyFinite bool nat int | PyInf bool | PyNaN

datatype pyval =
    PyNone
  | PyBool bool
  | PyInt int
  | PyFloat pyfloat
  | PyStr string
  | PyList "pyval list"
  | PyDict "(string \<times> pyval) list"

datatype error =
    JSONDecodeError
  | KeyError string
  | TypeError
  | IndexError
  | AttributeError string
  | NameError string
  | APIError string
  | RequestException string

subsection \<open>Subscription \<^verbatim>\<open>d[key]\<close> with a string key\<close>

fun getitem :: "pyval \<Rightarrow> string \<Rightarrow> error + pyval" where
  "getitem (PyDict kvs) k = (case map_of kvs k of None \<Rightarrow> Inl (KeyError k) | Some v \<Rightarrow> Inr v)"
| "getitem _ k = Inl TypeError"

subsection \<open>\<^verbatim>\<open>str\<close> and \<^verbatim>\<open>repr\<close>\<close>

definition digit_char :: "nat \<Rightarrow> char" where
  "digit_char d = ''0123456789abcdef'' ! (d mod 16)"

fun digits_of :: "nat \<Rightarrow> string" where
  "digits_of n = (if n < 10 then [digit_char n] else digits_of (n div 10) @ [digit_char (n mod 10)])"

declare digits_of.simps [simp del]

definition int_str :: "int \<Rightarrow> string" where
  "int_str i = (if i < 0 then ''-'' @ digits_of (nat (- i)) else digits_of (nat i))"

text \<open>
  \<^verbatim>\<open>repr\<close> of a float: the shortest digits that read back as the same float, written
  positionally when the decimal point falls within \<^verbatim>\<open>-4 < decpt <= 16\<close> and in exponent
  notation otherwise; a float with no fractional digits gets \<^verbatim>\<open>.0\<close>.
\<close>

definition exp_str :: "int \<Rightarrow> string" where
  "exp_str x =
     (let ds = digits_of (nat \<bar>x\<bar>)
      in (if x < 0 then ''-'' else ''+'') @ (if length ds < 2 then ''0'' @ ds else ds))"

definition float_digits_str :: "nat \<Rightarrow> int \<Rightarrow> string" where
  "float_digits_str m e =
     (let ds = digits_of m; n = int (length ds); decpt = n + e
      in if m = 0 then ''0.0''
         else if - 4 < decpt \<and> decpt \<le> 16 then
           (if decpt \<le> 0 then ''0.'' @ replicate (nat (- decpt)) CHR ''0'' @ ds
            else if n \<le> decpt then ds @ replicate (nat (decpt - n)) CHR ''0'' @ ''.0''
            else take (nat decpt) ds @ ''.'' @ drop (nat decpt) ds)
         else
           (if length ds = 1 then ds else take 1 ds @ ''.'' @ drop 1 ds)
             @ ''e'' @ exp_str (decpt - 1))"

fun float_str :: "pyfloat \<Rightarrow> string" where
  "float_str (PyFinite neg m e) = (if neg then ''-'' else []) @ float_digits_str m e"
| "float_str (PyInf neg) = (if neg then ''-inf'' else ''inf'')"
| "float_str PyNaN = ''nan''"

text \<open>
  \<^verbatim>\<open>repr\<close> of a string: single quotes, unless the string has a single quote and no
  double quote; backslash, the chosen quote, tab, newline and carriage return are
  escaped and the other ASCII control characters are written \<^verbatim>\<open>\xNN\<close>. Bytes from 128
  on (the UTF-8 encoding of a non-ASCII character) are kept, which is what Python does
  for printable characters.
\<close>

definition repr_char :: "char \<Rightarrow> char \<Rightarrow> string" where
  "repr_char quote c =
     (if c = quote \<or> c = CHR 0x5C then [CHR 0x5C, c]
      else if c = CHR 0x09 then [CHR 0x5C, CHR ''t'']
      else if c = CHR 0x0A then [CHR 0x5C, CHR ''n'']
      else if c = CHR 0x0D then [CHR 0x5C, CHR ''r'']
      else if c < CHR 0x20 \<or> c = CHR 0x7F then
        [CHR 0x5C, CHR ''x'', digit_char (of_char c div 16), digit_char (of_char c mod 16)]
      else [c])"

definition str_repr :: "string \<Rightarrow> string" where
  "str_repr s =
     (let quote = (if CHR 0x27 \<in> set s \<and> CHR 0x22 \<notin> set s then CHR 0x22 else CHR 0x27)
      in [quote] @ concat (map (repr_char quote) s) @ [quote])"

fun join :: "string \<Rightarrow> string list \<Rightarrow> string" where
  "join sep [] = []"
| "join sep [x] = x"
| "join sep (x # y # ys) = x @ sep @ join sep (y # ys)"

fun py_repr :: "pyval \<Rightarrow> string" where
  "py_repr PyNone = ''None''"
| "py_repr (PyBool b) = (if b then ''True'' else ''False'')"
| "py_repr (PyInt i) = int_str i"
| "py_repr (PyFloat f) = float_str f"
| "py_repr (PyStr s) = str_repr s"
| "py_repr (PyList xs) = ''['' @ join '', '' (map py_repr xs) @ '']''"
| "py_repr (PyDict kvs) =
     ''{'' @ join '', '' (map (\<lambda>(k, v). str_repr k @ '': '' @ py_repr v) kvs) @ ''}''"

text \<open>\<^verbatim>\<open>str(x)\<close>, also what an f-string field \<^verbatim>\<open>{x}\<close> inserts: the string itself for a
  string, \<^verbatim>\<open>repr(x)\<close> for every other value here.\<close>

fun py_str :: "pyval \<Rightarrow> string" where
  "py_str (PyStr s) = s"
| "py_str v = py_repr v"

section \<open>\<^verbatim>\<open>json.loads\<close>\<close>

text \<open>
  The decoder of Python's \<^verbatim>\<open>json\<close> module with its default settings: strict strings
  (no raw control character), the constants \<^verbatim>\<open>NaN\<close>, \<^verbatim>\<open>Infinity\<close> and \<^verbatim>\<open>-Infinity\<close>
  accepted, a number without fraction and exponent read as an integer and any other
  number as a float, a repeated key keeping its first position and its last value.
  A document is cut into tokens, and the tokens are read by a machine with an explicit
  stack of the containers that are still open. Every failure is \<^verbatim>\<open>JSONDecodeError\<close>.
\<close>

subsection \<open>Tokens\<close>

datatype token =
    TLBrace | TRBrace | TLBracket | TRBracket | TColon | TComma
  | TScalar pyval

definition is_ws :: "char \<Rightarrow> bool" where
  "is_ws c \<longleftrightarrow> c = CHR '' '' \<or> c = CHR 0x09 \<or> c = CHR 0x0A \<or> c = CHR 0x0D"

definition is_digit :: "char \<Rightarrow> bool" where
  "is_digit c \<longleftrightarrow> CHR ''0'' \<le> c \<and> c \<le> CHR ''9''"

definition digit_val :: "char \<Rightarrow> nat" where
  "digit_val c = of_char c - 48"

definition nat_of_digits :: "string \<Rightarrow> nat" where
  "nat_of_digits ds = foldl (\<lambda>n c. 10 * n + digit_val c) 0 ds"

definition hexval :: "char \<Rightarrow> nat option" where
  "hexval c =
     (if is_digit c then Some (digit_val c)
      else if CHR ''a'' \<le> c \<and> c \<le> CHR ''f'' then Some (of_char c - 87)
      else if CHR ''A'' \<le> c \<and> c \<le> CHR ''F'' then Some (of_char c - 55)
      else None)"

definition hex4 :: "string \<Rightarrow> nat option" where
  "hex4 s =
     (case s of
        a # b # c # d # _ \<Rightarrow>
          (case (hexval a, hexval b, hexval c, hexval d) of
             (Some w, Some x, Some y, Some z) \<Rightarrow> Some (((w * 16 + x) * 16 + y) * 16 + z)
           | _ \<Rightarrow> None)
      | _ \<Rightarrow> None)"

definition utf8_encode :: "nat \<Rightarrow> string" where
  "utf8_encode n =
     (if n < 0x80 then [char_of n]
      else if n < 0x800 then [char_of (0xC0 + n div 64), char_of (0x80 + n mod 64)]
      else if n < 0x10000 then
        [char_of (0xE0 + n div 4096), char_of (0x80 + n div 64 mod 64), char_of (0x80 + n mod 64)]
      else
        [char_of (0xF0 + n div 262144), char_of (0x80 + n div 4096 mod 64),
         char_of (0x80 + n div 64 mod 64), char_of (0x80 + n mod 64)])"

definition simple_escape :: "char \<Rightarrow> char option" where
  "simple_escape e =
     (if e = CHR 0x22 \<or> e = CHR 0x5C \<or> e = CHR ''/'' then Some e
      else if e = CHR ''b'' then Some (CHR 0x08)
      else if e = CHR ''f'' then Some (CHR 0x0C)
      else if e = CHR ''n'' then Some (CHR 0x0A)
      else if e = CHR ''r'' then Some (CHR 0x0D)
      else if e = CHR ''t'' then Some (CHR 0x09)
      else None)"

definition prepend :: "string \<Rightarrow> (string \<times> string) option \<Rightarrow> (string \<times> string) option" where
  "prepend x r = map_option (\<lambda>(s, rest). (x @ s, rest)) r"

text \<open>The body of a string literal, from after the opening quote: the decoded string
  and the text after the closing quote.\<close>

fun scan_string :: "string \<Rightarrow> (string \<times> string) option" where
  "scan_string [] = None"
| "scan_string (c # cs) =
     (if c = CHR 0x22 then Some ([], cs)
      else if c = CHR 0x5C then
        (case cs of
           [] \<Rightarrow> None
         | e # es \<Rightarrow>
             if e = CHR ''u'' then
               (case hex4 es of
                  None \<Rightarrow> None
                | Some u \<Rightarrow>
                    if 0xD800 \<le> u \<and> u \<le> 0xDBFF \<and> take 2 (drop 4 es) = [CHR 0x5C, CHR ''u''] then
                      (case hex4 (drop 6 es) of
                         None \<Rightarrow> None
                       | Some u2 \<Rightarrow>
                           if 0xDC00 \<le> u2 \<and> u2 \<le> 0xDFFF then
                             prepend (utf8_encode (0x10000 + (u - 0xD800) * 1024 + (u2 - 0xDC00)))
                               (scan_string (drop 10 es))
                           else prepend (utf8_encode u) (scan_string (drop 4 es)))
                    else prepend (utf8_encode u) (scan_string (drop 4 es)))
             else
               (case simple_escape e of
                  None \<Rightarrow> None
                | Some x \<Rightarrow> prepend [x] (scan_string es)))
      else if c < CHR 0x20 then None
      else prepend [c] (scan_string cs))"

declare scan_string.simps(2) [simp del]

subsection \<open>Numbers\<close>

fun strip10 :: "nat \<Rightarrow> int \<Rightarrow> nat \<times> int" where
  "strip10 m e =
     (if m = 0 then (0, 0)
      else if m mod 10 = 0 then strip10 (m div 10) (e + 1)
      else (m, e))"

declare strip10.simps [simp del]

definition mk_float :: "bool \<Rightarrow> string \<Rightarrow> string \<Rightarrow> int \<Rightarrow> pyfloat" where
  "mk_float neg ip fp ex =
     (case strip10 (nat_of_digits (ip @ fp)) (ex - int (length fp)) of
        (m, e) \<Rightarrow> PyFinite neg m e)"

definition scan_int :: "char \<Rightarrow> string \<Rightarrow> string \<times> string" where
  "scan_int d ds =
     (if d = CHR ''0'' then ([d], ds) else (d # takeWhile is_digit ds, dropWhile is_digit ds))"

definition scan_frac :: "string \<Rightarrow> string \<times> string" where
  "scan_frac r =
     (case r of
        p # f # fs \<Rightarrow>
          if p = CHR ''.'' \<and> is_digit f
          then (takeWhile is_digit (f # fs), dropWhile is_digit (f # fs))
          else ([], r)
      | _ \<Rightarrow> ([], r))"

text \<open>An exponent: the marker, an optional sign and at least one digit; without a
  digit there is no exponent and nothing is consumed.\<close>

definition scan_exp :: "string \<Rightarrow> int option \<times> string" where
  "scan_exp r =
     (case r of
        [] \<Rightarrow> (None, r)
      | m # es \<Rightarrow>
          if m = CHR ''e'' \<or> m = CHR ''E'' then
            (let neg = (take 1 es = ''-'');
                 ds = (if take 1 es = ''-'' \<or> take 1 es = ''+'' then drop 1 es else es)
             in if takeWhile is_digit ds = [] then (None, r)
                else (Some ((if neg then - 1 else 1) * int (nat_of_digits (takeWhile is_digit ds))),
                      dropWhile is_digit ds))
          else (None, r))"

text \<open>A number without its sign, from its first digit \<open>d\<close>.\<close>

definition scan_unsigned :: "bool \<Rightarrow> char \<Rightarrow> string \<Rightarrow> pyval \<times> string" where
  "scan_unsigned neg d ds =
     (case scan_int d ds of
        (ip, r1) \<Rightarrow>
          (case scan_frac r1 of
             (fp, r2) \<Rightarrow>
               (case scan_exp r2 of
                  (ex, r3) \<Rightarrow>
                    if fp = [] \<and> ex = None
                    then (PyInt ((if neg then - 1 else 1) * int (nat_of_digits ip)), r3)
                    else (PyFloat (mk_float neg ip fp (case ex of None \<Rightarrow> 0 | Some x \<Rightarrow> x)), r3))))"

subsection \<open>The lexer\<close>

definition scan_scalar :: "char \<Rightarrow> string \<Rightarrow> (pyval \<times> string) option" where
  "scan_scalar c cs =
     (if c = CHR 0x22 then map_option (\<lambda>(s, rest). (PyStr s, rest)) (scan_string cs)
      else if c = CHR ''n'' \<and> take 3 cs = ''ull'' then Some (PyNone, drop 3 cs)
      else if c = CHR ''t'' \<and> take 3 cs = ''rue'' then Some (PyBool True, drop 3 cs)
      else if c = CHR ''f'' \<and> take 4 cs = ''alse'' then Some (PyBool False, drop 4 cs)
      else if c = CHR ''N'' \<and> take 2 cs = ''aN'' then Some (PyFloat PyNaN, drop 2 cs)
      else if c = CHR ''I'' \<and> take 7 cs = ''nfinity'' then Some (PyFloat (PyInf False), drop 7 cs)
      else if c = CHR ''-'' \<and> take 8 cs = ''Infinity'' then Some (PyFloat (PyInf True), drop 8 cs)
      else if c = CHR ''-'' then
        (case cs of
           [] \<Rightarrow> None
         | d # ds \<Rightarrow> if is_digit d then Some (scan_unsigned True d ds) else None)
      else if is_digit c then Some (scan_unsigned False c cs)
      else None)"

definition punct :: "char \<Rightarrow> token option" where
  "punct c =
     (if c = CHR ''{'' then Some TLBrace
      else if c = CHR ''}'' then Some TRBrace
      else if c = CHR ''['' then Some TLBracket
      else if c = CHR '']'' then Some TRBracket
      else if c = CHR '':'' then Some TColon
      else if c = CHR '','' then Some TComma
      else None)"

lemma prepend_length:
  "prepend x r = Some (s, rest) \<Longrightarrow> \<exists>s'. r = Some (s', rest)"
  by (auto simp: prepend_def)

lemma scan_string_length:
  "scan_string cs = Some (s, rest) \<Longrightarrow> length rest \<le> length cs"
proof (induction "length cs" arbitrary: cs s rest rule: less_induct)
  case less
  have P: "length ds < length cs \<longrightarrow> length rest \<le> length ds"
    if "prepend x (scan_string ds) = Some (s, rest)" for x ds
  proof
    assume l: "length ds < length cs"
    from that obtain s' where "scan_string ds = Some (s', rest)"
      using prepend_length by blast
    with less.hyps[OF l] show "length rest \<le> length ds"
      by blast
  qed
  show ?case
  proof (cases cs)
    case Nil
    with less.prems show ?thesis by simp
  next
    case (Cons c cs')
    with less.prems show ?thesis
      by (auto simp: scan_string.simps(2) split: if_splits list.splits option.splits
          dest!: P[unfolded Cons])
  qed
qed

lemma scan_unsigned_length:
  "scan_unsigned neg d ds = (v, rest) \<Longrightarrow> length rest \<le> length ds"
proof -
  have i: "length (snd (scan_int d ds)) \<le> length ds"
    by (simp add: scan_int_def length_dropWhile_le)
  have f: "length (snd (scan_frac r)) \<le> length r" for r
    by (auto simp: scan_frac_def split: list.splits
        intro: le_trans[OF length_dropWhile_le])
  have e: "length (snd (scan_exp r)) \<le> length r" for r
    by (auto simp: scan_exp_def Let_def split: list.splits
        intro: le_trans[OF length_dropWhile_le])
  assume "scan_unsigned neg d ds = (v, rest)"
  then have "rest = snd (scan_exp (snd (scan_frac (snd (scan_int d ds)))))"
    by (auto simp: scan_unsigned_def split: prod.splits if_splits)
  with i f e show ?thesis
    by (metis le_trans)
qed

lemma scan_scalar_length [termination_simp]:
  "scan_scalar c cs = Some (v, rest) \<Longrightarrow> length rest < Suc (length cs)"
  by (auto simp: scan_scalar_def less_Suc_eq_le split: if_splits list.splits
      dest!: scan_string_length scan_unsigned_length)

fun lex :: "string \<Rightarrow> token list option" where
  "lex [] = Some []"
| "lex (c # cs) =
     (if is_ws c then lex cs
      else
        (case punct c of
           Some t \<Rightarrow> map_option ((#) t) (lex cs)
         | None \<Rightarrow>
             (case scan_scalar c cs of
                None \<Rightarrow> None
              | Some (v, rest) \<Rightarrow> map_option ((#) (TScalar v)) (lex rest))))"

declare lex.simps(2) [simp del]

subsection \<open>The parser\<close>

datatype frame =
    FArray "pyval list"
  | FObject "(string \<times> pyval) list" "string option"

datatype mode =
    MValue | MFirstElem | MFirstKey | MKey | MColon | MAfter
  | MDone pyval

text \<open>A complete value goes to the innermost open container, or is the document.\<close>

fun deliver :: "pyval \<Rightarrow> frame list \<Rightarrow> (mode \<times> frame list) option" where
  "deliver v [] = Some (MDone v, [])"
| "deliver v (FArray xs # st) = Some (MAfter, FArray (xs @ [v]) # st)"
| "deliver v (FObject kvs (Some k) # st) = Some (MAfter, FObject (AList.update k v kvs) None # st)"
| "deliver v (FObject kvs None # st) = None"

fun start_value :: "token \<Rightarrow> frame list \<Rightarrow> (mode \<times> frame list) option" where
  "start_value (TScalar v) st = deliver v st"
| "start_value TLBracket st = Some (MFirstElem, FArray [] # st)"
| "start_value TLBrace st = Some (MFirstKey, FObject [] None # st)"
| "start_value _ st = None"

fun key :: "token \<Rightarrow> frame list \<Rightarrow> (mode \<times> frame list) option" where
  "key (TScalar (PyStr k)) (FObject kvs None # st) = Some (MColon, FObject kvs (Some k) # st)"
| "key _ _ = None"

fun close :: "token \<Rightarrow> frame list \<Rightarrow> (mode \<times> frame list) option" where
  "close TRBracket (FArray xs # st) = deliver (PyList xs) st"
| "close TRBrace (FObject kvs None # st) = deliver (PyDict kvs) st"
| "close _ _ = None"

fun step :: "mode \<Rightarrow> frame list \<Rightarrow> token \<Rightarrow> (mode \<times> frame list) option" where
  "step MValue st t = start_value t st"
| "step MFirstElem st t = (if t = TRBracket then close t st else start_value t st)"
| "step MFirstKey st t = (if t = TRBrace then close t st else key t st)"
| "step MKey st t = key t st"
| "step MColon st t = (if t = TColon then Some (MValue, st) else None)"
| "step MAfter st t =
     (if t = TComma then
        (case st of
           FArray xs # _ \<Rightarrow> Some (MValue, st)
         | FObject kvs None # _ \<Rightarrow> Some (MKey, st)
         | _ \<Rightarrow> None)
      else close t st)"
| "step (MDone v) st t = None"

fun parse :: "mode \<Rightarrow> frame list \<Rightarrow> token list \<Rightarrow> pyval option" where
  "parse m st [] = (case m of MDone v \<Rightarrow> Some v | _ \<Rightarrow> None)"
| "parse m st (t # ts) =
     (case step m st t of None \<Rightarrow> None | Some (m', st') \<Rightarrow> parse m' st' ts)"

definition json_loads :: "string \<Rightarrow> error + pyval" where
  "json_loads s =
     (case lex s of
        None \<Rightarrow> Inl JSONDecodeError
      | Some ts \<Rightarrow>
          (case parse MValue [] ts of
             None \<Rightarrow> Inl JSONDecodeError
           | Some v \<Rightarrow> Inr v))"

section \<open>The objects of the Responses API\<close>

text \<open>
  The items of \<^verbatim>\<open>response.output\<close> that the notebook's cell outputs show: a function
  tool call with the attributes \<^verbatim>\<open>arguments\<close>, \<^verbatim>\<open>call_id\<close>, \<^verbatim>\<open>name\<close>, \<^verbatim>\<open>id\<close>
  and \<^verbatim>\<open>status\<close>, an output message with its content parts, and a web search call.
  The attribute \<^verbatim>\<open>output\<close> of a response is the field \<open>output'\<close>.
  Only a function tool call has the attributes \<^verbatim>\<open>arguments\<close> and \<^verbatim>\<open>call_id\<close>; reading
  them on another item raises \<^verbatim>\<open>AttributeError\<close>.
\<close>

record function_tool_call =
  arguments :: string
  call_id :: string
  name :: string
  item_id :: string
  status :: string

datatype content = ResponseOutputText string | ResponseOutputRefusal string

datatype output_item =
    ResponseFunctionToolCall function_tool_call
  | ResponseOutputMessage "content list"
  | ResponseFunctionWebSearch

record response =
  output' :: "output_item list"

fun get_arguments :: "output_item \<Rightarrow> error + string" where
  "get_arguments (ResponseFunctionToolCall fc) = Inr (arguments fc)"
| "get_arguments _ = Inl (AttributeError ''arguments'')"

fun get_call_id :: "output_item \<Rightarrow> error + string" where
  "get_call_id (ResponseFunctionToolCall fc) = Inr (call_id fc)"
| "get_call_id _ = Inl (AttributeError ''call_id'')"

text \<open>\<^verbatim>\<open>response.output_text\<close>: the texts of the \<^verbatim>\<open>output_text\<close> parts of the message
  items, joined.\<close>

fun content_text :: "content \<Rightarrow> string" where
  "content_text (ResponseOutputText t) = t"
| "content_text (ResponseOutputRefusal _) = []"

fun item_text :: "output_item \<Rightarrow> string" where
  "item_text (ResponseOutputMessage cs) = concat (map content_text cs)"
| "item_text _ = []"

definition output_text :: "response \<Rightarrow> string" where
  "output_text r = concat (map item_text (output' r))"

text \<open>An element of \<^verbatim>\<open>input_messages\<close> is a dictionary written in the notebook, or an
  item of a response appended as it is.\<close>

datatype item = Dict "(string \<times> pyval) list" | Obj output_item

section \<open>The outside world\<close>

text \<open>
  The notebook calls two services: \<^verbatim>\<open>client.responses.create\<close> and \<^verbatim>\<open>requests.get\<close>.
  Each call is recorded in a trace, and so is each call of the local function
  \<^verbatim>\<open>get_weather\<close>. What a service answers is given by an environment: a function of
  the calls made so far and of the arguments, which returns the response (for
  \<^verbatim>\<open>requests.get\<close>, the body of the response) or the exception raised.
\<close>

datatype event =
    ResponsesCreate string "item list" "pyval list"
  | GetWeather pyval pyval
  | RequestsGet string

record env =
  responses_create :: "event list \<Rightarrow> string \<Rightarrow> item list \<Rightarrow> pyval list \<Rightarrow> error + response"
  requests_get :: "event list \<Rightarrow> string \<Rightarrow> error + string"

section \<open>The notebook\<close>

subsection \<open>\<^verbatim>\<open>get_weather\<close>\<close>

definition weather_url :: "pyval \<Rightarrow> pyval \<Rightarrow> string" where
  "weather_url latitude longitude =
     ''https://api.open-meteo.com/v1/forecast?latitude='' @ py_str latitude
       @ ''&longitude='' @ py_str longitude
       @ ''&current=temperature_2m,wind_speed_10m''
       @ ''&hourly=temperature_2m,relative_humidity_2m,wind_speed_10m''"

text \<open>\<^verbatim>\<open>response.json()\<close> decodes the body; \<^verbatim>\<open>data["current"]["temperature_2m"]\<close> is
  two subscriptions. The function touches no variable of the notebook: it takes the
  trace and returns it extended.\<close>

definition get_weather :: "env \<Rightarrow> pyval \<Rightarrow> pyval \<Rightarrow> event list \<Rightarrow> (error + pyval) \<times> event list" where
  "get_weather e latitude longitude tr =
     (let url = weather_url latitude longitude;
          tr1 = tr @ [GetWeather latitude longitude];
          tr2 = tr1 @ [RequestsGet url]
      in case requests_get e tr1 url of
           Inl err \<Rightarrow> (Inl err, tr2)
         | Inr body \<Rightarrow>
             (case json_loads body of
                Inl err \<Rightarrow> (Inl err, tr2)
              | Inr data \<Rightarrow>
                  (case getitem data ''current'' of
                     Inl err \<Rightarrow> (Inl err, tr2)
                   | Inr current \<Rightarrow> (getitem current ''temperature_2m'', tr2))))"

subsection \<open>The variables\<close>

text \<open>
  The state of the kernel after the first cells have run (imports, \<^verbatim>\<open>client\<close>,
  \<^verbatim>\<open>get_weather\<close> and \<^verbatim>\<open>tools\<close> defined): the variables that the later cells assign,
  \<open>None\<close> while unassigned, what has been printed, and the trace. Reading an
  unassigned variable raises \<^verbatim>\<open>NameError\<close>.
\<close>

record notebook =
  input_messages :: "item list option"
  response :: "response option"
  tool_call :: "output_item option"
  args :: "pyval option"
  result :: "pyval option"
  response_2 :: "response option"
  stdout :: string
  trace :: "event list"

definition fresh :: notebook where
  "fresh = \<lparr>input_messages = None, response = None, tool_call = None, args = None,
     result = None, response_2 = None, stdout = [], trace = []\<rparr>"

definition tools :: "pyval list" where
  "tools =
     [PyDict
        [(''type'', PyStr ''function''),
         (''name'', PyStr ''get_weather''),
         (''description'', PyStr ''Get current temperature for provided coordinates in celsius.''),
         (''parameters'',
          PyDict
            [(''type'', PyStr ''object''),
             (''properties'',
              PyDict
                [(''latitude'', PyDict [(''type'', PyStr ''number'')]),
                 (''longitude'', PyDict [(''type'', PyStr ''number'')])]),
             (''required'', PyList [PyStr ''latitude'', PyStr ''longitude'']),
             (''additionalProperties'', PyBool False)]),
         (''strict'', PyBool True)]]"

definition user_query :: string where
  "user_query = ''What'' @ [CHR 0x27] @ ''s the weather like in Tokyo today?''"

definition user_message :: item where
  "user_message = Dict [(''role'', PyStr ''user''), (''content'', PyStr user_query)]"

definition function_call_output :: "string \<Rightarrow> string \<Rightarrow> item" where
  "function_call_output cid out =
     Dict [(''type'', PyStr ''function_call_output''), (''call_id'', PyStr cid), (''output'', PyStr out)]"

subsection \<open>The cells\<close>

text \<open>A cell takes the state to the exception it raised, if any, and the state it
  left. An assignment made before the exception stays.\<close>

type_synonym cell = "notebook \<Rightarrow> error option \<times> notebook"

text \<open>\<^verbatim>\<open>input_messages = [{"role": "user", "content": "..."}]\<close>\<close>

definition cell_input_messages :: cell where
  "cell_input_messages nb = (None, nb\<lparr>input_messages := Some [user_message]\<rparr>)"

text \<open>\<^verbatim>\<open>response = client.responses.create(model="gpt-4o", input=input_messages, tools=tools)\<close>\<close>

definition cell_create :: "env \<Rightarrow> cell" where
  "cell_create e nb =
     (case input_messages nb of
        None \<Rightarrow> (Some (NameError ''input_messages''), nb)
      | Some msgs \<Rightarrow>
          (let nb1 = nb\<lparr>trace := trace nb @ [ResponsesCreate ''gpt-4o'' msgs tools]\<rparr>
           in case responses_create e (trace nb) ''gpt-4o'' msgs tools of
                Inl err \<Rightarrow> (Some err, nb1)
              | Inr r \<Rightarrow> (None, nb1\<lparr>response := Some r\<rparr>)))"

text \<open>
  \<^verbatim>\<open>tool_call = response.output[0]\<close>
  \<^verbatim>\<open>args = json.loads(tool_call.arguments)\<close>
  \<^verbatim>\<open>result = get_weather(args["latitude"], args["longitude"])\<close>
\<close>

definition cell_dispatch :: "env \<Rightarrow> cell" where
  "cell_dispatch e nb =
     (case response nb of
        None \<Rightarrow> (Some (NameError ''response''), nb)
      | Some r \<Rightarrow>
          (case output' r of
             [] \<Rightarrow> (Some IndexError, nb)
           | tc # _ \<Rightarrow>
               (let nb1 = nb\<lparr>tool_call := Some tc\<rparr>
                in case get_arguments tc of
                     Inl err \<Rightarrow> (Some err, nb1)
                   | Inr a \<Rightarrow>
                       (case json_loads a of
                          Inl err \<Rightarrow> (Some err, nb1)
                        | Inr d \<Rightarrow>
                            (let nb2 = nb1\<lparr>args := Some d\<rparr>
                             in case getitem d ''latitude'' of
                                  Inl err \<Rightarrow> (Some err, nb2)
                                | Inr lat \<Rightarrow>
                                    (case getitem d ''longitude'' of
                                       Inl err \<Rightarrow> (Some err, nb2)
                                     | Inr lon \<Rightarrow>
                                         (case get_weather e lat lon (trace nb2) of
                                            (Inl err, tr) \<Rightarrow> (Some err, nb2\<lparr>trace := tr\<rparr>)
                                          | (Inr t, tr) \<Rightarrow>
                                              (None, nb2\<lparr>trace := tr, result := Some t\<rparr>))))))))"

text \<open>
  \<^verbatim>\<open>input_messages.append(tool_call)\<close>
  \<^verbatim>\<open>input_messages.append({"type": "function_call_output", "call_id": tool_call.call_id, "output": str(result)})\<close>
  \<^verbatim>\<open>response_2 = client.responses.create(model="gpt-4o", input=input_messages, tools=tools)\<close>
  \<^verbatim>\<open>print(response_2.output_text)\<close>
\<close>

definition cell_followup :: "env \<Rightarrow> cell" where
  "cell_followup e nb =
     (case input_messages nb of
        None \<Rightarrow> (Some (NameError ''input_messages''), nb)
      | Some msgs \<Rightarrow>
          (case tool_call nb of
             None \<Rightarrow> (Some (NameError ''tool_call''), nb)
           | Some tc \<Rightarrow>
               (let msgs1 = msgs @ [Obj tc];
                    nb1 = nb\<lparr>input_messages := Some msgs1\<rparr>
                in case get_call_id tc of
                     Inl err \<Rightarrow> (Some err, nb1)
                   | Inr cid \<Rightarrow>
                       (case result nb1 of
                          None \<Rightarrow> (Some (NameError ''result''), nb1)
                        | Some res \<Rightarrow>
                            (let msgs2 = msgs1 @ [function_call_output cid (py_str res)];
                                 nb2 = nb1\<lparr>input_messages := Some msgs2,
                                         trace := trace nb1 @ [ResponsesCreate ''gpt-4o'' msgs2 tools]\<rparr>
                             in case responses_create e (trace nb1) ''gpt-4o'' msgs2 tools of
                                  Inl err \<Rightarrow> (Some err, nb2)
                                | Inr r2 \<Rightarrow>
                                    (None, nb2\<lparr>response_2 := Some r2,
                                              stdout := stdout nb2 @ output_text r2 @ [CHR 0x0A]\<rparr>))))))"

text \<open>Running the cells in order stops at the first exception.\<close>

fun run_cells :: "cell list \<Rightarrow> cell" where
  "run_cells [] nb = (None, nb)"
| "run_cells (c # cs) nb =
     (case c nb of
        (Some err, nb') \<Rightarrow> (Some err, nb')
      | (None, nb') \<Rightarrow> run_cells cs nb')"

definition run_all :: "env \<Rightarrow> error option \<times> notebook" where
  "run_all e = run_cells [cell_input_messages, cell_create e, cell_dispatch e, cell_followup e] fresh"


fun local_calls :: "event list \<Rightarrow> (pyval \<times> pyval) list" where
  "local_calls [] = []"
| "local_calls (GetWeather lat lon # tr) = (lat, lon) # local_calls tr"
| "local_calls (_ # tr) = local_calls tr"


section \<open>The run recorded in the notebook\<close>

text \<open>
  The answers that the cell outputs of the notebook show: the first response is one
  function call for the coordinates of Tokyo, the weather endpoint gives 20.5 degrees,
  and the second response is one sentence.
\<close>

definition demo_call :: function_tool_call where
  \<open>demo_call =
     \<lparr>arguments = ''{"latitude":35.682839,"longitude":139.759455}'',
      call_id = ''call_KqM2XlFWwa9VKR6A35JbXK1m'',
      name = ''get_weather'',
      item_id = ''fc_67fcae117d6881918df7e4b719a9abd10a45c2aed1083c1b'',
      status = ''completed''\<rparr>\<close>

definition demo_body :: string where
  \<open>demo_body = ''{"current":{"temperature_2m":20.5}}''\<close>

definition demo_answer :: string where
  "demo_answer = ''The weather in Tokyo today is 20.5'' @ [CHR 0xC2, CHR 0xB0] @ ''C.''"

definition demo_env :: env where
  "demo_env =
     \<lparr>responses_create = (\<lambda>tr m msgs ts.
        if tr = [] then Inr \<lparr>output' = [ResponseFunctionToolCall demo_call]\<rparr>
        else Inr \<lparr>output' = [ResponseOutputMessage [ResponseOutputText demo_answer]]\<rparr>),
      requests_get = (\<lambda>tr url. Inr demo_body)\<rparr>"

definition tokyo_latitude :: pyval where
  "tokyo_latitude = PyFloat (PyFinite False 35682839 (- 6))"

definition tokyo_longitude :: pyval where
  "tokyo_longitude = PyFloat (PyFinite False 139759455 (- 6))"

definition demo_url :: string where
  "demo_url = ''https://api.open-meteo.com/v1/forecast?latitude=35.682839&longitude=139.759455''
     @ ''&current=temperature_2m,wind_speed_10m''
     @ ''&hourly=temperature_2m,relative_humidity_2m,wind_speed_10m''"

text \<open>The state of the recorded run before and after the dispatch.\<close>

definition demo_asked :: notebook where
  "demo_asked =
     fresh\<lparr>input_messages := Some [user_message],
       trace := [ResponsesCreate ''gpt-4o'' [user_message] tools],
       response := Some \<lparr>output' = [ResponseFunctionToolCall demo_call]\<rparr>\<rparr>"

definition demo_dispatched :: notebook where
  "demo_dispatched =
     demo_asked\<lparr>tool_call := Some (ResponseFunctionToolCall demo_call),
       args := Some (PyDict [(''latitude'', tokyo_latitude), (''longitude'', tokyo_longitude)]),
       result := Some (PyFloat (PyFinite False 205 (- 1))),
       trace := [ResponsesCreate ''gpt-4o'' [user_message] tools,
                 GetWeather tokyo_latitude tokyo_longitude, RequestsGet demo_url]\<rparr>"


text \<open>A first response that is plain text, with no function call.\<close>

definition text_response :: response where
  "text_response = \<lparr>output' = [ResponseOutputMessage [ResponseOutputText demo_answer]]\<rparr>"


text \<open>A function call that names a function the notebook does not define.\<close>

definition renamed_call :: function_tool_call where
  "renamed_call = demo_call\<lparr>name := ''get_time''\<rparr>"

definition renamed_env :: env where
  "renamed_env =
     \<lparr>responses_create = (\<lambda>tr m msgs ts.
        if tr = [] then Inr \<lparr>output' = [ResponseFunctionToolCall renamed_call]\<rparr>
        else Inr text_response),
      requests_get = (\<lambda>tr url. Inr demo_body)\<rparr>"

text \<open>A body of the weather endpoint with the other fields that the URL asks for.\<close>

definition full_body :: string where
  \<open>full_body =
     ''{"latitude":35.7,"longitude":139.75,"current":{"time":"2025-04-14T06:30","interval":900,''
     @ ''"temperature_2m":20.5,"wind_speed_10m":7.2},"hourly":{"time":["2025-04-14T00:00",''
     @ ''"2025-04-14T01:00"],"temperature_2m":[19.8,20.1],"relative_humidity_2m":[52,55],''
     @ ''"wind_speed_10m":[6.9,7.4]}}''\<close>

definition full_current :: pyval where
  "full_current =
     PyDict [(''time'', PyStr ''2025-04-14T06:30''), (''interval'', PyInt 900),
             (''temperature_2m'', PyFloat (PyFinite False 205 (- 1))),
             (''wind_speed_10m'', PyFloat (PyFinite False 72 (- 1)))]"

definition full_data :: pyval where
  "full_data =
     PyDict [(''latitude'', PyFloat (PyFinite False 357 (- 1))),
             (''longitude'', PyFloat (PyFinite False 13975 (- 2))),
             (''current'', full_current),
             (''hourly'',
              PyDict [(''time'', PyList [PyStr ''2025-04-14T00:00'', PyStr ''2025-04-14T01:00'']),
                      (''temperature_2m'',
                       PyList [PyFloat (PyFinite False 198 (- 1)), PyFloat (PyFinite False 201 (- 1))]),
                      (''relative_humidity_2m'', PyList [PyInt 52, PyInt 55]),
                      (''wind_speed_10m'',
                       PyList [PyFloat (PyFinite False 69 (- 1)), PyFloat (PyFinite False 74 (- 1))])])]"

definition full_env :: env where
  "full_env =
     \<lparr>responses_create = (\<lambda>tr m msgs ts. Inr text_response),
      requests_get = (\<lambda>tr url. Inr full_body)\<rparr>"

section \<open>Properties\<close>

subsection \<open>Auxiliary facts\<close>

lemmas json_eval = json_loads_def lex.simps(2) scan_scalar_def scan_string.simps(2) punct_def
  is_ws_def is_digit_def scan_unsigned_def scan_int_def scan_frac_def scan_exp_def mk_float_def
  strip10.simps nat_of_digits_def digit_val_def prepend_def simple_escape_def hex4_def hexval_def

lemmas str_eval = float_digits_str_def digits_of.simps digit_char_def int_str_def exp_str_def

lemma get_weather_trace:
  "snd (get_weather e lat lon tr) = tr @ [GetWeather lat lon, RequestsGet (weather_url lat lon)]"
  by (simp add: get_weather_def Let_def split: sum.splits)

lemma get_weather_eq:
  "get_weather e lat lon tr = (r, tr') \<Longrightarrow>
     tr' = tr @ [GetWeather lat lon, RequestsGet (weather_url lat lon)]"
  using get_weather_trace[of e lat lon tr] by simp


lemma local_calls_append: "local_calls (xs @ ys) = local_calls xs @ local_calls ys"
  by (induction xs rule: local_calls.induct) simp_all

lemma run_cells_single: "run_cells [c] nb = c nb"
  by (simp split: prod.splits option.splits)

text \<open>The run up to the first response, then the dispatch, then the follow-up.\<close>

lemma run_all_unfold:
  "run_all e =
     (case responses_create e [] ''gpt-4o'' [user_message] tools of
        Inl err \<Rightarrow> (Some err, fresh\<lparr>input_messages := Some [user_message],
                      trace := [ResponsesCreate ''gpt-4o'' [user_message] tools]\<rparr>)
      | Inr r \<Rightarrow>
          (case cell_dispatch e (fresh\<lparr>input_messages := Some [user_message],
                      trace := [ResponsesCreate ''gpt-4o'' [user_message] tools], response := Some r\<rparr>) of
             (Some err, nb) \<Rightarrow> (Some err, nb)
           | (None, nb) \<Rightarrow> cell_followup e nb))"
  by (simp add: run_all_def cell_input_messages_def cell_create_def fresh_def Let_def
      run_cells_single split: sum.splits prod.splits option.splits)

lemma dispatch_frame:
  "input_messages (snd (cell_dispatch e nb)) = input_messages nb"
  "stdout (snd (cell_dispatch e nb)) = stdout nb"
  "response (snd (cell_dispatch e nb)) = response nb"
  by (simp_all add: cell_dispatch_def Let_def
      split: option.splits list.splits sum.splits prod.splits)

lemma dispatch_success:
  assumes "cell_dispatch e nb = (None, nb')"
  shows "\<exists>r fc rest d lat lon t.
           response nb = Some r \<and> output' r = ResponseFunctionToolCall fc # rest \<and>
           json_loads (arguments fc) = Inr d \<and> getitem d ''latitude'' = Inr lat \<and>
           getitem d ''longitude'' = Inr lon \<and>
           fst (get_weather e lat lon (trace nb)) = Inr t \<and>
           nb' = nb\<lparr>tool_call := Some (ResponseFunctionToolCall fc), args := Some d,
                   trace := trace nb @ [GetWeather lat lon, RequestsGet (weather_url lat lon)],
                   result := Some t\<rparr>"
  using assms
  by (auto simp: cell_dispatch_def Let_def
      split: option.splits list.splits sum.splits prod.splits
      elim!: get_arguments.elims dest: get_weather_eq)


lemma followup_function_call:
  assumes "input_messages nb = Some msgs"
    and "tool_call nb = Some (ResponseFunctionToolCall fc)"
    and "result nb = Some res"
  shows "trace (snd (cell_followup e nb)) =
           trace nb @ [ResponsesCreate ''gpt-4o''
             (msgs @ [Obj (ResponseFunctionToolCall fc), function_call_output (call_id fc) (py_str res)])
             tools]"
    and "input_messages (snd (cell_followup e nb)) =
           Some (msgs @ [Obj (ResponseFunctionToolCall fc), function_call_output (call_id fc) (py_str res)])"
    and "result (snd (cell_followup e nb)) = Some res"
  by (simp_all add: cell_followup_def Let_def assms split: sum.splits)

text \<open>The recorded run, evaluated.\<close>

lemma demo_args:
  "json_loads (arguments demo_call) =
     Inr (PyDict [(''latitude'', tokyo_latitude), (''longitude'', tokyo_longitude)])"
  by (simp add: demo_call_def tokyo_latitude_def tokyo_longitude_def json_eval)

lemma demo_data:
  "json_loads demo_body =
     Inr (PyDict [(''current'', PyDict [(''temperature_2m'', PyFloat (PyFinite False 205 (- 1)))])])"
  by (simp add: demo_body_def json_eval)

lemma demo_weather_url: "weather_url tokyo_latitude tokyo_longitude = demo_url"
  by (simp add: weather_url_def tokyo_latitude_def tokyo_longitude_def demo_url_def str_eval)

lemma demo_get_weather:
  "get_weather demo_env lat lon tr =
     (Inr (PyFloat (PyFinite False 205 (- 1))),
      tr @ [GetWeather lat lon, RequestsGet (weather_url lat lon)])"
  by (simp add: get_weather_def Let_def demo_env_def demo_data)

lemma demo_dispatch: "cell_dispatch demo_env demo_asked = (None, demo_dispatched)"
  by (simp add: cell_dispatch_def Let_def demo_args demo_get_weather demo_weather_url fresh_def
      demo_asked_def demo_dispatched_def)

lemma demo_followup:
  "cell_followup demo_env demo_dispatched =
   (None,
    \<lparr>input_messages = Some [user_message, Obj (ResponseFunctionToolCall demo_call),
        function_call_output ''call_KqM2XlFWwa9VKR6A35JbXK1m'' ''20.5''],
     response = Some \<lparr>output' = [ResponseFunctionToolCall demo_call]\<rparr>,
     tool_call = Some (ResponseFunctionToolCall demo_call),
     args = Some (PyDict [(''latitude'', tokyo_latitude), (''longitude'', tokyo_longitude)]),
     result = Some (PyFloat (PyFinite False 205 (- 1))),
     response_2 = Some \<lparr>output' = [ResponseOutputMessage [ResponseOutputText demo_answer]]\<rparr>,
     stdout = demo_answer @ [CHR 0x0A],
     trace = [ResponsesCreate ''gpt-4o'' [user_message] tools,
              GetWeather tokyo_latitude tokyo_longitude, RequestsGet demo_url,
              ResponsesCreate ''gpt-4o''
                [user_message, Obj (ResponseFunctionToolCall demo_call),
                 function_call_output ''call_KqM2XlFWwa9VKR6A35JbXK1m'' ''20.5'']
                tools]\<rparr>)"
proof -
  have cid: "call_id demo_call = ''call_KqM2XlFWwa9VKR6A35JbXK1m''"
    by (simp add: demo_call_def)
  show ?thesis
    by (simp add: cell_followup_def Let_def fresh_def str_eval cid output_text_def demo_env_def
        demo_asked_def demo_dispatched_def)
qed

lemma demo_run:
  "run_all demo_env =
   (None,
    \<lparr>input_messages = Some [user_message, Obj (ResponseFunctionToolCall demo_call),
        function_call_output ''call_KqM2XlFWwa9VKR6A35JbXK1m'' ''20.5''],
     response = Some \<lparr>output' = [ResponseFunctionToolCall demo_call]\<rparr>,
     tool_call = Some (ResponseFunctionToolCall demo_call),
     args = Some (PyDict [(''latitude'', tokyo_latitude), (''longitude'', tokyo_longitude)]),
     result = Some (PyFloat (PyFinite False 205 (- 1))),
     response_2 = Some \<lparr>output' = [ResponseOutputMessage [ResponseOutputText demo_answer]]\<rparr>,
     stdout = demo_answer @ [CHR 0x0A],
     trace = [ResponsesCreate ''gpt-4o'' [user_message] tools,
              GetWeather tokyo_latitude tokyo_longitude, RequestsGet demo_url,
              ResponsesCreate ''gpt-4o''
                [user_message, Obj (ResponseFunctionToolCall demo_call),
                 function_call_output ''call_KqM2XlFWwa9VKR6A35JbXK1m'' ''20.5'']
                tools]\<rparr>)"
proof -
  have first: "responses_create demo_env [] ''gpt-4o'' [user_message] tools =
      Inr \<lparr>output' = [ResponseFunctionToolCall demo_call]\<rparr>"
    by (simp add: demo_env_def)
  show ?thesis
    unfolding run_all_unfold first sum.case demo_dispatch[unfolded demo_asked_def]
      prod.case option.case
    by (rule demo_followup)
qed

lemma full_data_eval: "json_loads full_body = Inr full_data"
  by (simp add: full_body_def full_data_def full_current_def json_eval)

lemma dispatch_failure_trace:
  assumes "cell_dispatch e nb = (Some err, nb')"
  shows "trace nb' = trace nb \<or> (\<exists>lat lon. fst (get_weather e lat lon (trace nb)) = Inl err)"
  using assms
  by (auto simp: cell_dispatch_def Let_def
      split: option.splits list.splits sum.splits prod.splits)
    (metis fst_conv)

subsection \<open>The follow-up resubmits the whole sequence\<close>



subsection \<open>The initial message sequence\<close>

text \<open>
  Claim C8. The cell that composes the request leaves in \<^verbatim>\<open>input_messages\<close> a
  sequence of length exactly 1; its single element has role \<^verbatim>\<open>user\<close> and the query
  as its content. That sequence and the tool schemas are what the first API call of a
  run receives.
\<close>

theorem initial_sequence_is_one_user_message:
  "fst (cell_input_messages nb) = None
   \<and> map_option length (input_messages (snd (cell_input_messages nb))) = Some 1
   \<and> input_messages (snd (cell_input_messages nb)) =
       Some [Dict [(''role'', PyStr ''user''), (''content'', PyStr user_query)]]
   \<and> take 1 (trace (snd (run_all e))) =
       [ResponsesCreate ''gpt-4o''
          [Dict [(''role'', PyStr ''user''), (''content'', PyStr user_query)]] tools]"
proof -
  have "take 1 (trace (snd (cell_followup e nb'))) = take 1 (trace nb')"
    if "trace nb' \<noteq> []" for nb'
    using that
    by (cases "trace nb'")
      (simp_all add: cell_followup_def Let_def split: option.splits sum.splits)
  moreover have "trace nb' \<noteq> [] \<and> take 1 (trace nb') = take 1 (trace nb0)"
    if "cell_dispatch e nb0 = (eo, nb')" and "trace nb0 \<noteq> []" for nb0 nb' eo
    using that
    by (cases "trace nb0")
      (auto simp: cell_dispatch_def Let_def
        split: option.splits list.splits sum.splits prod.splits dest!: get_weather_eq)
  ultimately have "take 1 (trace (snd (run_all e))) =
      [ResponsesCreate ''gpt-4o'' [user_message] tools]"
    by (auto simp: run_all_unfold fresh_def split: sum.splits prod.splits option.splits)
  then show ?thesis
    by (simp add: cell_input_messages_def user_message_def)
qed

subsection \<open>The call id of the output item\<close>

text \<open>
  Claim C3. Whenever the follow-up cell sends a message sequence to the API, from any
  state, that sequence is the previous one followed by a function-call item and by a
  function-call-output item whose \<^verbatim>\<open>call_id\<close> is the very string that is the
  \<^verbatim>\<open>call_id\<close> of that function-call item; the function-call item stands right before
  the output item that answers it.
\<close>

theorem followup_output_answers_call:
  assumes "trace (snd (cell_followup e nb)) = trace nb @ [ResponsesCreate m msgs ts]"
  shows "\<exists>old fc out.
           input_messages nb = Some old \<and> tool_call nb = Some (ResponseFunctionToolCall fc) \<and>
           msgs = old @ [Obj (ResponseFunctionToolCall fc),
                         Dict [(''type'', PyStr ''function_call_output''),
                               (''call_id'', PyStr (call_id fc)), (''output'', PyStr out)]]"
  using assms
  by (auto simp: cell_followup_def Let_def function_call_output_def
      split: option.splits sum.splits elim!: get_call_id.elims)

theorem followup_output_answers_call_witness:
  "trace (snd (cell_followup demo_env demo_dispatched)) =
     trace demo_dispatched @
       [ResponsesCreate ''gpt-4o''
          [user_message, Obj (ResponseFunctionToolCall demo_call),
           function_call_output ''call_KqM2XlFWwa9VKR6A35JbXK1m'' ''20.5''] tools]
   \<and> (\<exists>old fc out.
         input_messages demo_dispatched = Some old \<and>
         tool_call demo_dispatched = Some (ResponseFunctionToolCall fc) \<and>
         [user_message, Obj (ResponseFunctionToolCall demo_call),
          function_call_output ''call_KqM2XlFWwa9VKR6A35JbXK1m'' ''20.5''] =
         old @ [Obj (ResponseFunctionToolCall fc),
                Dict [(''type'', PyStr ''function_call_output''),
                      (''call_id'', PyStr (call_id fc)), (''output'', PyStr out)]])"
proof -
  have h: "trace (snd (cell_followup demo_env demo_dispatched)) =
     trace demo_dispatched @
       [ResponsesCreate ''gpt-4o''
          [user_message, Obj (ResponseFunctionToolCall demo_call),
           function_call_output ''call_KqM2XlFWwa9VKR6A35JbXK1m'' ''20.5''] tools]"
    by (simp add: demo_followup) (simp add: demo_dispatched_def)
  from followup_output_answers_call[OF h] h show ?thesis
    by simp
qed

subsection \<open>Malformed arguments\<close>



subsection \<open>The coordinates passed to the local function\<close>

text \<open>
  Claim C6. When the arguments of the dispatched function call are the string
  \<^verbatim>\<open>{"latitude":35.682839,"longitude":139.759455}\<close>, the dispatch cell calls
  \<^verbatim>\<open>get_weather\<close> once, with the two floats 35.682839 and 139.759455 as latitude and
  longitude and nothing else, and the request that follows carries these two values.
\<close>

theorem dispatch_passes_coordinates:
  assumes \<open>response nb = Some r\<close>
    and \<open>output' r = ResponseFunctionToolCall fc # rest\<close>
    and \<open>arguments fc = ''{"latitude":35.682839,"longitude":139.759455}''\<close>
  shows \<open>trace (snd (cell_dispatch e nb)) =
           trace nb @
             [GetWeather (PyFloat (PyFinite False 35682839 (- 6)))
                         (PyFloat (PyFinite False 139759455 (- 6))),
              RequestsGet demo_url]
         \<and> local_calls (trace (snd (cell_dispatch e nb))) =
             local_calls (trace nb) @
               [(PyFloat (PyFinite False 35682839 (- 6)),
                 PyFloat (PyFinite False 139759455 (- 6)))]\<close>
proof -
  from assms(3) have "arguments fc = arguments demo_call"
    by (simp add: demo_call_def)
  then have "json_loads (arguments fc) =
      Inr (PyDict [(''latitude'', tokyo_latitude), (''longitude'', tokyo_longitude)])"
    by (simp add: demo_args)
  with assms(1,2) have "trace (snd (cell_dispatch e nb)) =
      trace nb @ [GetWeather tokyo_latitude tokyo_longitude, RequestsGet demo_url]"
    by (simp add: cell_dispatch_def Let_def get_weather_trace demo_weather_url
        split: prod.splits sum.splits)
      (auto dest!: get_weather_eq simp: demo_weather_url)
  then show ?thesis
    by (simp add: local_calls_append tokyo_latitude_def tokyo_longitude_def)
qed

theorem dispatch_passes_coordinates_witness:
  \<open>response demo_asked = Some \<lparr>output' = [ResponseFunctionToolCall demo_call]\<rparr>
   \<and> arguments demo_call = ''{"latitude":35.682839,"longitude":139.759455}''
   \<and> local_calls (trace (snd (cell_dispatch demo_env demo_asked))) =
       [(PyFloat (PyFinite False 35682839 (- 6)), PyFloat (PyFinite False 139759455 (- 6)))]\<close>
proof -
  have a: "response demo_asked = Some \<lparr>output' = [ResponseFunctionToolCall demo_call]\<rparr>"
    by (simp add: demo_asked_def)
  have b: "output' \<lparr>output' = [ResponseFunctionToolCall demo_call]\<rparr> =
      ResponseFunctionToolCall demo_call # []"
    by simp
  have c: \<open>arguments demo_call = ''{"latitude":35.682839,"longitude":139.759455}''\<close>
    by (simp add: demo_call_def)
  from dispatch_passes_coordinates[OF a b c, of demo_env] a c show ?thesis
    by (simp add: demo_asked_def fresh_def)
qed

subsection \<open>The temperature and its string\<close>

text \<open>
  Claim C5. When the weather endpoint answers with the body
  \<^verbatim>\<open>{"current":{"temperature_2m":20.5}}\<close>, \<^verbatim>\<open>get_weather\<close> returns the float 20.5, and
  in every run that called the local function the function-call-output item that ends
  the message sequence has the string \<^verbatim>\<open>20.5\<close> as its output.
\<close>

theorem weather_20_5_output_string:
  assumes \<open>\<And>tr url. requests_get e tr url = Inr ''{"current":{"temperature_2m":20.5}}''\<close>
  shows \<open>fst (get_weather e lat lon tr) = Inr (PyFloat (PyFinite False 205 (- 1)))
         \<and> (local_calls (trace (snd (run_all e))) \<noteq> [] \<longrightarrow>
              (\<exists>fc. input_messages (snd (run_all e)) =
                 Some [user_message, Obj (ResponseFunctionToolCall fc),
                       Dict [(''type'', PyStr ''function_call_output''),
                             (''call_id'', PyStr (call_id fc)), (''output'', PyStr ''20.5'')]]))\<close>
proof -
  have gw: "fst (get_weather e lat lon tr) = Inr (PyFloat (PyFinite False 205 (- 1)))" for lat lon tr
    by (simp add: get_weather_def Let_def assms demo_data[unfolded demo_body_def])
  have "\<exists>fc. input_messages (snd (run_all e)) =
                 Some [user_message, Obj (ResponseFunctionToolCall fc),
                       function_call_output (call_id fc) ''20.5'']"
    if called: "local_calls (trace (snd (run_all e))) \<noteq> []"
  proof (cases "responses_create e [] ''gpt-4o'' [user_message] tools")
    case (Inl err)
    with called show ?thesis
      by (simp add: run_all_unfold)
  next
    case (Inr r)
    let ?nb = "fresh\<lparr>input_messages := Some [user_message],
      trace := [ResponsesCreate ''gpt-4o'' [user_message] tools], response := Some r\<rparr>"
    obtain eo nb' where d: "cell_dispatch e ?nb = (eo, nb')"
      by (cases "cell_dispatch e ?nb")
    show ?thesis
    proof (cases eo)
      case (Some err)
      with d Inr have run: "run_all e = (Some err, nb')"
        by (simp add: run_all_unfold)
      from dispatch_failure_trace[OF d[unfolded Some]] gw have "trace nb' = trace ?nb"
        by auto
      with run called show ?thesis
        by simp
    next
      case None
      with d have ok: "cell_dispatch e ?nb = (None, nb')" by simp
      from dispatch_success[OF ok] gw obtain fc d' lat lon where
        nb': "nb' = ?nb\<lparr>tool_call := Some (ResponseFunctionToolCall fc), args := Some d',
                   trace := trace ?nb @ [GetWeather lat lon, RequestsGet (weather_url lat lon)],
                   result := Some (PyFloat (PyFinite False 205 (- 1)))\<rparr>"
        by auto
      from ok Inr have run: "run_all e = cell_followup e nb'"
        by (simp add: run_all_unfold)
      have "input_messages (snd (cell_followup e nb')) =
          Some ([user_message] @ [Obj (ResponseFunctionToolCall fc),
            function_call_output (call_id fc) (py_str (PyFloat (PyFinite False 205 (- 1))))])"
        by (rule followup_function_call(2)) (simp_all add: nb')
      with run show ?thesis
        by (auto simp: str_eval)
    qed
  qed
  with gw show ?thesis
    by (simp add: function_call_output_def)
qed

theorem weather_20_5_output_string_witness:
  \<open>requests_get demo_env [] [] = Inr ''{"current":{"temperature_2m":20.5}}''
   \<and> fst (get_weather demo_env tokyo_latitude tokyo_longitude []) =
       Inr (PyFloat (PyFinite False 205 (- 1)))
   \<and> local_calls (trace (snd (run_all demo_env))) \<noteq> []
   \<and> (\<exists>fc. input_messages (snd (run_all demo_env)) =
         Some [user_message, Obj (ResponseFunctionToolCall fc),
               Dict [(''type'', PyStr ''function_call_output''),
                     (''call_id'', PyStr (call_id fc)), (''output'', PyStr ''20.5'')]])\<close>
proof -
  have a: \<open>requests_get demo_env tr url = Inr ''{"current":{"temperature_2m":20.5}}''\<close> for tr url
    by (simp add: demo_env_def demo_body_def)
  have b: "local_calls (trace (snd (run_all demo_env))) \<noteq> []"
    by (simp add: demo_run)
  from weather_20_5_output_string[of demo_env tokyo_latitude tokyo_longitude "[]", OF a] a b
  show ?thesis
    by blast
qed

subsection \<open>What \<^verbatim>\<open>get_weather\<close> returns\<close>

text \<open>
  Claim C10. When the endpoint's body is JSON with a field \<^verbatim>\<open>current\<close> that has a field
  \<^verbatim>\<open>temperature_2m\<close>, \<^verbatim>\<open>get_weather\<close> returns the value of that field and nothing
  else, after one request; the URL of the request ends with the query for the wind
  speed and the hourly series, which the result does not contain.
\<close>

theorem get_weather_returns_current_temperature:
  assumes "requests_get e (tr @ [GetWeather lat lon]) (weather_url lat lon) = Inr body"
    and "json_loads body = Inr data"
    and "getitem data ''current'' = Inr cur"
    and "getitem cur ''temperature_2m'' = Inr t"
  shows "get_weather e lat lon tr =
           (Inr t, tr @ [GetWeather lat lon, RequestsGet (weather_url lat lon)])
         \<and> suffix (''&current=temperature_2m,wind_speed_10m''
                    @ ''&hourly=temperature_2m,relative_humidity_2m,wind_speed_10m'')
             (weather_url lat lon)"
proof -
  have "suffix (''&current=temperature_2m,wind_speed_10m''
                    @ ''&hourly=temperature_2m,relative_humidity_2m,wind_speed_10m'')
             (weather_url lat lon)"
    unfolding weather_url_def suffix_def by (metis append.assoc)
  with assms show ?thesis
    by (simp add: get_weather_def Let_def)
qed

theorem get_weather_returns_current_temperature_witness:
  "requests_get full_env [GetWeather tokyo_latitude tokyo_longitude] demo_url = Inr full_body
   \<and> json_loads full_body = Inr full_data
   \<and> getitem full_data ''current'' = Inr full_current
   \<and> getitem full_current ''temperature_2m'' = Inr (PyFloat (PyFinite False 205 (- 1)))
   \<and> get_weather full_env tokyo_latitude tokyo_longitude [] =
       (Inr (PyFloat (PyFinite False 205 (- 1))),
        [GetWeather tokyo_latitude tokyo_longitude, RequestsGet demo_url])"
proof -
  have a: "requests_get full_env ([] @ [GetWeather tokyo_latitude tokyo_longitude])
      (weather_url tokyo_latitude tokyo_longitude) = Inr full_body"
    by (simp add: full_env_def)
  have c: "getitem full_data ''current'' = Inr full_current"
    by (simp add: full_data_def)
  have d: "getitem full_current ''temperature_2m'' = Inr (PyFloat (PyFinite False 205 (- 1)))"
    by (simp add: full_current_def)
  from get_weather_returns_current_temperature[OF a full_data_eval c d] a c d
  show ?thesis
    by (simp add: demo_weather_url full_data_eval)
qed

subsection \<open>The message sequence only grows\<close>

text \<open>
  Claim C9. The dispatch cell leaves \<^verbatim>\<open>input_messages\<close> as it is, and the follow-up
  cell only appends to it: the old sequence is a prefix of the new one, so no element
  is changed or removed. At the end of every run the first element is the user message.
\<close>

theorem input_messages_append_only:
  assumes "input_messages nb = Some msgs"
  shows "input_messages (snd (cell_dispatch e nb)) = Some msgs
         \<and> (\<exists>added. input_messages (snd (cell_followup e nb)) = Some (msgs @ added))
         \<and> (\<exists>added. input_messages (snd (run_all e')) = Some (user_message # added))"
proof -
  have f: "\<exists>added. input_messages (snd (cell_followup e nb)) = Some (ms @ added)"
    if "input_messages nb = Some ms" for e nb ms
    using that
    by (auto simp: cell_followup_def Let_def split: option.splits sum.splits)
  have "\<exists>added. input_messages (snd (run_all e')) = Some (user_message # added)"
  proof (cases "responses_create e' [] ''gpt-4o'' [user_message] tools")
    case (Inl err)
    then show ?thesis
      by (simp add: run_all_unfold)
  next
    case (Inr r)
    let ?nb = "fresh\<lparr>input_messages := Some [user_message],
      trace := [ResponsesCreate ''gpt-4o'' [user_message] tools], response := Some r\<rparr>"
    obtain eo nb' where d: "cell_dispatch e' ?nb = (eo, nb')"
      by (cases "cell_dispatch e' ?nb")
    from dispatch_frame(1)[of e' ?nb] d have im: "input_messages nb' = Some [user_message]"
      by simp
    show ?thesis
    proof (cases eo)
      case (Some err)
      with d Inr im show ?thesis
        by (simp add: run_all_unfold)
    next
      case None
      with d Inr have "run_all e' = cell_followup e' nb'"
        by (simp add: run_all_unfold)
      with f[OF im, of e'] show ?thesis
        by simp
    qed
  qed
  with f[OF assms, of e] assms show ?thesis
    by (simp add: dispatch_frame(1))
qed

theorem input_messages_append_only_witness:
  "input_messages demo_dispatched = Some [user_message]
   \<and> input_messages (snd (cell_dispatch demo_env demo_dispatched)) = Some [user_message]
   \<and> (\<exists>added. input_messages (snd (cell_followup demo_env demo_dispatched)) =
         Some ([user_message] @ added))
   \<and> (\<exists>added. input_messages (snd (run_all demo_env)) = Some (user_message # added))"
proof -
  have a: "input_messages demo_dispatched = Some [user_message]"
    by (simp add: demo_dispatched_def demo_asked_def)
  from input_messages_append_only[OF a, of demo_env demo_env] a show ?thesis
    by simp
qed

subsection \<open>A response without a function call\<close>




subsection \<open>The name of the function call\<close>

text \<open>
  Claim C7 says that the dispatcher calls the local function that the item's name
  designates and fails with a lookup error for a name that is not registered. The
  notebook has no registry and never reads the name: for the call below, named
  \<^verbatim>\<open>get_time\<close>, the run ends without an exception and \<^verbatim>\<open>get_weather\<close> has been called.
\<close>

theorem unregistered_name_counterexample:
  "responses_create renamed_env [] ''gpt-4o'' [user_message] tools =
     Inr \<lparr>output' = [ResponseFunctionToolCall renamed_call]\<rparr>
   \<and> name renamed_call = ''get_time''
   \<and> fst (run_all renamed_env) = None
   \<and> local_calls (trace (snd (run_all renamed_env))) = [(tokyo_latitude, tokyo_longitude)]"
proof -
  have a: "json_loads (arguments renamed_call) =
      Inr (PyDict [(''latitude'', tokyo_latitude), (''longitude'', tokyo_longitude)])"
    using demo_args by (simp add: renamed_call_def)
  have g: "get_weather renamed_env lat lon tr =
     (Inr (PyFloat (PyFinite False 205 (- 1))),
      tr @ [GetWeather lat lon, RequestsGet (weather_url lat lon)])" for lat lon tr
    by (simp add: get_weather_def Let_def renamed_env_def demo_data)
  have r: "responses_create renamed_env [] ''gpt-4o'' [user_message] tools =
     Inr \<lparr>output' = [ResponseFunctionToolCall renamed_call]\<rparr>"
    by (simp add: renamed_env_def)
  have "run_all renamed_env =
      cell_followup renamed_env
        (fresh\<lparr>input_messages := Some [user_message],
           response := Some \<lparr>output' = [ResponseFunctionToolCall renamed_call]\<rparr>,
           tool_call := Some (ResponseFunctionToolCall renamed_call),
           args := Some (PyDict [(''latitude'', tokyo_latitude), (''longitude'', tokyo_longitude)]),
           result := Some (PyFloat (PyFinite False 205 (- 1))),
           trace := [ResponsesCreate ''gpt-4o'' [user_message] tools,
                     GetWeather tokyo_latitude tokyo_longitude, RequestsGet demo_url]\<rparr>)"
    by (simp add: run_all_unfold r cell_dispatch_def Let_def a g demo_weather_url fresh_def)
  moreover have "name renamed_call = ''get_time''"
    by (simp add: renamed_call_def)
  ultimately show ?thesis
    using r
    by (simp add: cell_followup_def Let_def fresh_def renamed_env_def text_response_def)
qed

text \<open>
  Claim C7, amended. The dispatch cell handles the first output item only and does not
  depend on its name: with any other name, and with any other items after the first,
  it raises the same exception or none, leaves the same trace (the same call of
  \<^verbatim>\<open>get_weather\<close>, the only local function, and the same request) and assigns the
  same result.
\<close>

theorem dispatch_ignores_name:
  "fst (cell_dispatch e (nb\<lparr>response := Some \<lparr>output' = ResponseFunctionToolCall (fc\<lparr>name := n\<rparr>) # rest'\<rparr>\<rparr>)) =
     fst (cell_dispatch e (nb\<lparr>response := Some \<lparr>output' = ResponseFunctionToolCall fc # rest\<rparr>\<rparr>))
   \<and> trace (snd (cell_dispatch e (nb\<lparr>response := Some \<lparr>output' = ResponseFunctionToolCall (fc\<lparr>name := n\<rparr>) # rest'\<rparr>\<rparr>))) =
     trace (snd (cell_dispatch e (nb\<lparr>response := Some \<lparr>output' = ResponseFunctionToolCall fc # rest\<rparr>\<rparr>)))
   \<and> result (snd (cell_dispatch e (nb\<lparr>response := Some \<lparr>output' = ResponseFunctionToolCall (fc\<lparr>name := n\<rparr>) # rest'\<rparr>\<rparr>))) =
     result (snd (cell_dispatch e (nb\<lparr>response := Some \<lparr>output' = ResponseFunctionToolCall fc # rest\<rparr>\<rparr>)))"
  by (simp add: cell_dispatch_def Let_def split: sum.splits prod.splits)

end
